theory Spec2Isabelle
  imports
    Main
    "HOL-Library.Char_ord"
    "HOL-Library.List_Lexorder"
    "HOL-Library.Multiset"
    "HOL-Library.Word"
begin

section \<open>Kubernetes API types used by the webhook generator\<close>

text \<open>
  The generator builds values of a few Kubernetes API types. Only the fields the
  generator reads or writes are kept; every other field of the Go structs stays at its
  zero value in this program. Go strings are byte sequences, and so is \<open>string\<close>.
  A Go pointer or interface that may be \<open>nil\<close> is an \<open>option\<close>.
\<close>

record RuleWithOperations =
  Operations :: "string list"
  APIGroups :: "string list"
  APIVersions :: "string list"
  Resources :: "string list"

record LabelSelectorRequirement =
  Key :: string
  Operator :: string
  Values :: "string list"

record LabelSelector =
  MatchLabels :: "string \<rightharpoonup> string"
  MatchExpressions :: "LabelSelectorRequirement list"

text \<open>The constant \<open>metav1.LabelSelectorOpDoesNotExist\<close>.\<close>

definition LabelSelectorOpDoesNotExist :: string where
  "LabelSelectorOpDoesNotExist = ''DoesNotExist''"

text \<open>
  The struct \<open>service\<close> of the generator: the Service in front of the webhook
  server. No operation of this program tells a \<open>nil\<close> map of selectors from an empty
  one, and the model does not either.
\<close>

record service =
  name :: string
  namespace :: string
  selectors :: "string \<rightharpoonup> string"

section \<open>The webhook descriptor\<close>

text \<open>
  Modelled from the spec: the declaration of \<open>webhookType\<close> and of its two constants
  \<open>webhookTypeMutating\<close> and \<open>webhookTypeValidating\<close> is not among the source files.
  The spec calls it an enumeration of Mutating and Validating; \<open>Validate\<close> tests for
  a value that is neither, so the type has further values, which the third constructor
  stands for (the zero value of a descriptor whose type was never set is one of them).
\<close>

datatype webhookType =
    webhookTypeMutating
  | webhookTypeValidating
  | webhookTypeOther int

text \<open>
  The errors of the package: \<open>errors.New\<close> with its message, the \<open>fmt.Errorf\<close> of
  \<open>Validate\<close> with the offending type, and an error handed up from \<open>url.Parse\<close>.
\<close>

datatype error =
    errors_New string
  | unsupported_Type webhookType
  | url_Error string

text \<open>
  The struct \<open>admissionWebhook\<close>. The field \<open>once\<close> is the \<open>sync.Once\<close> guard,
  reduced to its flag: \<open>True\<close> when \<open>Do\<close> has run its function.
\<close>

record admissionWebhook =
  name :: string
  t :: webhookType
  path :: string
  rules :: "RuleWithOperations list"
  failurePolicy :: "string option"
  namespaceSelector :: "LabelSelector option"
  once :: bool

definition isAlnum :: "char \<Rightarrow> bool" where
  "isAlnum c \<longleftrightarrow>
     (CHR ''a'' \<le> c \<and> c \<le> CHR ''z'') \<or>
     (CHR ''A'' \<le> c \<and> c \<le> CHR ''Z'') \<or>
     (CHR ''0'' \<le> c \<and> c \<le> CHR ''9'')"

text \<open>
  \<open>regexp.MustCompile("[^a-zA-Z0-9]+").ReplaceAllString(s, "")\<close>: scanning from the
  left, every maximal run of characters outside the class is one match and is replaced
  by the empty string. A byte of a multi-byte or malformed UTF-8 sequence is never an
  ASCII letter or digit, so the run of bytes is the run of runes.
\<close>

function ReplaceAllString :: "string \<Rightarrow> string" where
  "ReplaceAllString [] = []"
| "ReplaceAllString (c # cs) =
     (if isAlnum c then c # ReplaceAllString cs
      else ReplaceAllString (dropWhile (\<lambda>d. \<not> isAlnum d) cs))"
  by pat_completeness auto
termination
  by (relation "measure length") (auto simp: le_imp_less_Suc length_dropWhile_le)

text \<open>
  \<open>strings.ToLower\<close> on ASCII text (the only text it is given here): an upper-case
  letter moves up by \<open>'a' - 'A'\<close>, every other byte stays.
\<close>

definition toLower :: "char \<Rightarrow> char" where
  "toLower c =
     (if CHR ''A'' \<le> c \<and> c \<le> CHR ''Z'' then char_of (of_char c + (32 :: nat)) else c)"

definition ToLower :: "string \<Rightarrow> string" where
  "ToLower s = map toLower s"

text \<open>Lines 63 to 67 of \<open>setDefaults\<close>: the name derived from the path.\<close>

definition defaultName :: "admissionWebhook \<Rightarrow> admissionWebhook" where
  "defaultName w =
     (if name w = [] then
        w\<lparr>name := ToLower (ReplaceAllString (path w)) @ ''.example.com''\<rparr>
      else w)"

text \<open>
  \<open>setDefaults\<close>. With an empty path and no first resource to build one from, the
  function returns at once, before the name is looked at.
\<close>

definition setDefaults :: "admissionWebhook \<Rightarrow> admissionWebhook" where
  "setDefaults w =
     (if path w = [] then
        (case rules w of
           [] \<Rightarrow> w
         | r # _ \<Rightarrow>
            (case Resources r of
               [] \<Rightarrow> w
             | res # _ \<Rightarrow>
                defaultName
                  (if t w = webhookTypeMutating then w\<lparr>path := ''/mutate-'' @ res\<rparr>
                   else if t w = webhookTypeValidating then w\<lparr>path := ''/validate-'' @ res\<rparr>
                   else w)))
      else defaultName w)"

text \<open>\<open>w.once.Do(f)\<close>: runs \<open>f\<close> unless the guard is already set, and sets it.\<close>

definition once_Do :: "(admissionWebhook \<Rightarrow> admissionWebhook) \<Rightarrow> admissionWebhook \<Rightarrow> admissionWebhook" where
  "once_Do f w = (if once w then w else (f w)\<lparr>once := True\<rparr>)"

text \<open>
  The accessors return their value together with the descriptor as the call leaves it.
\<close>

definition GetName :: "admissionWebhook \<Rightarrow> string \<times> admissionWebhook" where
  "GetName w = (let w' = once_Do setDefaults w in (name w', w'))"

definition GetPath :: "admissionWebhook \<Rightarrow> string \<times> admissionWebhook" where
  "GetPath w = (let w' = once_Do setDefaults w in (path w', w'))"

definition GetType :: "admissionWebhook \<Rightarrow> webhookType \<times> admissionWebhook" where
  "GetType w = (let w' = once_Do setDefaults w in (t w', w'))"

definition Validate :: "admissionWebhook \<Rightarrow> error option \<times> admissionWebhook" where
  "Validate w =
     (let w' = once_Do setDefaults w in
      (if rules w' = [] then Some (errors_New ''field rules should not be empty'')
       else if name w' = [] then Some (errors_New ''field name should not be empty'')
       else if t w' \<noteq> webhookTypeMutating \<and> t w' \<noteq> webhookTypeValidating
         then Some (unsupported_Type (t w'))
       else if path w' = [] then Some (errors_New ''field path should not be empty'')
       else None,
       w'))"

text \<open>
  A caller's use of a descriptor is a sequence of accessor calls. \<open>call\<close> gives the
  descriptor after one call, \<open>calls\<close> after a sequence, and \<open>setDefaults_runs\<close>
  counts the calls of the sequence in which \<open>once.Do\<close> finds its guard unset, which
  are the calls that execute \<open>setDefaults\<close>.
\<close>

datatype accessor = call_GetName | call_GetPath | call_GetType | call_Validate

fun call :: "accessor \<Rightarrow> admissionWebhook \<Rightarrow> admissionWebhook" where
  "call call_GetName w = snd (GetName w)"
| "call call_GetPath w = snd (GetPath w)"
| "call call_GetType w = snd (GetType w)"
| "call call_Validate w = snd (Validate w)"

fun calls :: "accessor list \<Rightarrow> admissionWebhook \<Rightarrow> admissionWebhook" where
  "calls [] w = w"
| "calls (a # as) w = calls as (call a w)"

fun setDefaults_runs :: "accessor list \<Rightarrow> admissionWebhook \<Rightarrow> nat" where
  "setDefaults_runs [] w = 0"
| "setDefaults_runs (a # as) w =
     (if once w then 0 else 1) + setDefaults_runs as (call a w)"

section \<open>The Go library routines the generator calls\<close>

text \<open>
  \<open>strconv.Itoa\<close>: the decimal digits of an integer, with a minus sign when negative.
\<close>

function FormatUint :: "nat \<Rightarrow> string" where
  "FormatUint n =
     (if n < 10 then [''0123456789'' ! n]
      else FormatUint (n div 10) @ [''0123456789'' ! (n mod 10)])"
  by pat_completeness auto
termination
  by (relation "measure id") auto

declare FormatUint.simps [simp del]

definition Itoa :: "int \<Rightarrow> string" where
  "Itoa i = (if i < 0 then CHR ''-'' # FormatUint (nat (- i)) else FormatUint (nat i))"

text \<open>
  \<open>net.JoinHostPort\<close>: a host that contains a colon is taken for an IPv6 literal and
  put in square brackets.
\<close>

definition JoinHostPort :: "string \<Rightarrow> string \<Rightarrow> string" where
  "JoinHostPort h p =
     (if CHR '':'' \<in> set h then ''['' @ h @ '']:'' @ p else h @ '':'' @ p)"

text \<open>
  \<open>url.URL\<close>, with the three fields this program sets; user, query and fragment stay
  empty throughout.
\<close>

record URL =
  Scheme :: string
  Host :: string
  Path :: string

datatype encoding = encodePath | encodeHost | encodeZone

text \<open>
  \<open>shouldEscape\<close> of package \<open>net/url\<close> for the three modes above: letters and
  digits are never escaped; a host also keeps the sub-delimiters, the colon, the square
  and angle brackets and the double quote; the marks \<open>- _ . ~\<close> are kept; of the
  reserved characters a path escapes the question mark only and a host all that it has
  not kept already; every other byte is escaped.
\<close>

definition shouldEscape :: "char \<Rightarrow> encoding \<Rightarrow> bool" where
  "shouldEscape c mode =
     (if isAlnum c then False
      else if mode \<noteq> encodePath \<and>
              c \<in> set (''!$&()*+,;=:[]<>'' @ [CHR 0x27, CHR 0x22]) then False
      else if c \<in> set ''-_.~'' then False
      else if c \<in> set ''$&+,/:;=?@'' then (if mode = encodePath then c = CHR ''?'' else True)
      else True)"

definition escape_byte :: "char \<Rightarrow> string" where
  "escape_byte c =
     [CHR ''%'',
      ''0123456789ABCDEF'' ! (of_char c div 16),
      ''0123456789ABCDEF'' ! (of_char c mod 16)]"

definition escape :: "string \<Rightarrow> encoding \<Rightarrow> string" where
  "escape s mode = concat (map (\<lambda>c. if shouldEscape c mode then escape_byte c else [c]) s)"

text \<open>
  \<open>EscapedPath\<close> when no raw path is stored, as in every URL of this program.
\<close>

definition EscapedPath :: "URL \<Rightarrow> string" where
  "EscapedPath u = (if Path u = ''*'' then ''*'' else escape (Path u) encodePath)"

text \<open>
  \<open>URL.String\<close> for a URL with scheme, host and path only: the scheme and a colon;
  two slashes and the escaped host; a slash in front of a path that does not start with
  one when there is a host; the escaped path. With nothing written before it, a path
  whose first segment holds a colon is led by \<open>./\<close>.
\<close>

definition URL_String :: "URL \<Rightarrow> string" where
  "URL_String u =
     (let buf1 = (if Scheme u \<noteq> [] then Scheme u @ '':'' else []);
          buf2 = buf1 @
            (if Scheme u \<noteq> [] \<or> Host u \<noteq> [] then
               (if Host u \<noteq> [] \<or> Path u \<noteq> [] then ''//'' else []) @ escape (Host u) encodeHost
             else []);
          p = EscapedPath u;
          buf3 = buf2 @
            (if p \<noteq> [] \<and> hd p \<noteq> CHR ''/'' \<and> Host u \<noteq> [] then ''/'' else []);
          buf4 = buf3 @
            (if buf3 = [] \<and> CHR '':'' \<in> set (takeWhile (\<lambda>c. c \<noteq> CHR ''/'') p) then ''./'' else [])
      in buf4 @ p)"

definition unhex :: "char \<Rightarrow> nat option" where
  "unhex c =
     (if CHR ''0'' \<le> c \<and> c \<le> CHR ''9'' then Some (of_char c - 48)
      else if CHR ''a'' \<le> c \<and> c \<le> CHR ''f'' then Some (of_char c - 87)
      else if CHR ''A'' \<le> c \<and> c \<le> CHR ''F'' then Some (of_char c - 55)
      else None)"

text \<open>
  \<open>unescape\<close> in the host and zone modes, \<open>None\<close> for its error. A percent sign
  needs two hexadecimal digits after it; in a host it may only encode a byte from
  \<open>0x80\<close> up, or be \<open>%25\<close>; in a zone it may encode a space, \<open>%25\<close>, or a byte
  that a host keeps unescaped. An ASCII byte that a host would escape must not stand
  unescaped.
\<close>

fun unescape :: "encoding \<Rightarrow> string \<Rightarrow> string option" where
  "unescape mode [] = Some []"
| "unescape mode (c # cs) =
     (if c = CHR ''%'' then
        (case cs of
           h1 # h2 # rest \<Rightarrow>
             (case (unhex h1, unhex h2) of
                (Some a, Some b) \<Rightarrow>
                  if mode = encodeHost \<and> a < 8 \<and> [h1, h2] \<noteq> ''25'' then None
                  else if mode = encodeZone \<and> [h1, h2] \<noteq> ''25'' \<and> 16 * a + b \<noteq> 32 \<and>
                          shouldEscape (char_of (16 * a + b)) encodeHost then None
                  else map_option ((#) (char_of (16 * a + b))) (unescape mode rest)
              | _ \<Rightarrow> None)
         | _ \<Rightarrow> None)
      else if (of_char c :: nat) < 128 \<and> shouldEscape c encodeHost then None
      else map_option ((#) c) (unescape mode cs))"

text \<open>\<open>validOptionalPort\<close>: empty, or a colon followed by decimal digits only.\<close>

definition validOptionalPort :: "string \<Rightarrow> bool" where
  "validOptionalPort p \<longleftrightarrow>
     p = [] \<or> (hd p = CHR '':'' \<and> (\<forall>c \<in> set (tl p). CHR ''0'' \<le> c \<and> c \<le> CHR ''9''))"

text \<open>The part of \<open>s\<close> from the last occurrence of \<open>c\<close> on, and the part before it.\<close>

definition from_last :: "char \<Rightarrow> string \<Rightarrow> string" where
  "from_last c s = c # rev (takeWhile (\<lambda>d. d \<noteq> c) (rev s))"

definition before_last :: "char \<Rightarrow> string \<Rightarrow> string" where
  "before_last c s = rev (tl (dropWhile (\<lambda>d. d \<noteq> c) (rev s)))"

text \<open>The part of \<open>s\<close> before the first occurrence of \<open>%25\<close>, and the part from it on.\<close>

fun before_zone :: "string \<Rightarrow> string" where
  "before_zone [] = []"
| "before_zone (c # cs) = (if take 3 (c # cs) = ''%25'' then [] else c # before_zone cs)"

text \<open>
  \<open>parseHost\<close>. A host that opens a square bracket needs the closing one, a valid
  port after it, and is unescaped in three parts when it holds a zone; any other host
  with a colon needs a valid port after its last colon.
\<close>

definition parseHost :: "string \<Rightarrow> string option" where
  "parseHost h =
     (if take 1 h = ''['' then
        (if CHR '']'' \<notin> set h then None
         else if \<not> validOptionalPort (tl (from_last CHR '']'' h)) then None
         else
           (let inner = before_last CHR '']'' h;
                host1 = before_zone inner;
                host2 = drop (length host1) inner;
                host3 = from_last CHR '']'' h
            in if host2 = [] then unescape encodeHost h
               else (case (unescape encodeHost host1, unescape encodeZone host2,
                           unescape encodeHost host3) of
                       (Some a, Some b, Some c) \<Rightarrow> Some (a @ b @ c)
                     | _ \<Rightarrow> None)))
      else if CHR '':'' \<in> set h \<and> \<not> validOptionalPort (from_last CHR '':'' h) then None
      else unescape encodeHost h)"

text \<open>
  \<open>url.Parse\<close> on the strings this program hands to it. The only call is in
  \<open>setPath\<close>, on the rendering of a URL with scheme \<open>https\<close>, a non-empty host and
  no path: the text \<open>https://\<close> followed by an escaped host, in which no slash,
  question mark, hash or at sign can stand. On such a string the parser splits off the
  scheme and parses the rest as the host. The model rejects a string of any other shape.
\<close>

definition url_Parse :: "string \<Rightarrow> error + URL" where
  "url_Parse s =
     (if take 8 s = ''https://'' \<and> drop 8 s \<noteq> [] \<and> set (drop 8 s) \<inter> set ''/?#@'' = {} then
        (case parseHost (drop 8 s) of
           None \<Rightarrow> Inl (url_Error s)
         | Some h \<Rightarrow> Inr \<lparr>Scheme = ''https'', Host = h, Path = []\<rparr>)
      else Inl (url_Error s))"

section \<open>Output objects\<close>

record ServiceReference =
  Namespace :: string
  Name :: string
  Path :: "string option"

record WebhookClientConfig =
  URL :: "string option"
  Service :: "ServiceReference option"
  CABundle :: "8 word list"

record TypeMeta =
  APIVersion :: string
  Kind :: string

record ObjectMeta =
  Name :: string
  Namespace :: string
  Annotations :: "string \<rightharpoonup> string"

text \<open>\<open>intstr.IntOrString\<close>: the tag \<open>Type\<close> with the value it selects.\<close>

datatype IntOrString = IntVal "32 word" | StrVal string

record ServicePort =
  Port :: "32 word"
  TargetPort :: IntOrString

record ServiceSpec =
  Selector :: "string \<rightharpoonup> string"
  Ports :: "ServicePort list"

record corev1_Service =
  TypeMeta :: TypeMeta
  ObjectMeta :: ObjectMeta
  Spec :: ServiceSpec

text \<open>The webhook entry \<open>v1beta1.Webhook\<close> of a configuration.\<close>

record v1beta1_Webhook =
  Name :: string
  ClientConfig :: WebhookClientConfig
  Rules :: "RuleWithOperations list"
  FailurePolicy :: "string option"
  NamespaceSelector :: "LabelSelector option"

text \<open>
  \<open>MutatingWebhookConfiguration\<close> and \<open>ValidatingWebhookConfiguration\<close> are two Go
  structs with the same fields; one record serves both, and the constructor of
  \<open>runtime_Object\<close> says which one a value is. The interface \<open>runtime.Object\<close> holds a
  pointer to one of the three structs, or is \<open>nil\<close>, which is \<open>None\<close> of
  \<open>runtime_Object option\<close>.
\<close>

record WebhookConfiguration =
  TypeMeta :: TypeMeta
  ObjectMeta :: ObjectMeta
  Webhooks :: "v1beta1_Webhook list"

datatype runtime_Object =
    MutatingWebhookConfiguration WebhookConfiguration
  | ValidatingWebhookConfiguration WebhookConfiguration
  | Service_Object corev1_Service

section \<open>The generator\<close>

text \<open>
  The struct \<open>generatorOptions\<close>. The registry is a Go map, \<open>None\<close> when \<open>nil\<close>.
  Its values are pointers to descriptors; the model stores the descriptor itself and
  writes it back after every call that changes it. Two keys that share one pointer
  behave as two keys with equal descriptors: every change the generator makes to a
  descriptor (defaulting, the default namespace selector) is a function of the
  descriptor and the options, and makes the same change again when repeated.
  \<open>port\<close> is an \<open>int32\<close>, read as a signed number by \<open>sint\<close>.
\<close>

record generatorOptions =
  registry :: "(string \<rightharpoonup> admissionWebhook) option"
  port :: "32 word"
  certDir :: string
  mutatingWebhookConfigName :: string
  validatingWebhookConfigName :: string
  secret :: "(string \<times> string) option"
  service :: "service option"
  host :: "string option"

text \<open>
  \<open>setDefault\<close>. \<open>path.Join("k8s-webhook-server", "cert")\<close> is the two names with a
  slash between them.
\<close>

definition setDefault :: "generatorOptions \<Rightarrow> generatorOptions" where
  "setDefault opts =
     (let o1 = (if registry opts = None then opts\<lparr>registry := Some Map.empty\<rparr> else opts);
          o2 = (if sint (port o1) \<le> 0 then o1\<lparr>port := 443\<rparr> else o1);
          o3 = (if certDir o2 = [] then o2\<lparr>certDir := ''k8s-webhook-server/cert''\<rparr> else o2);
          o4 = (if mutatingWebhookConfigName o3 = []
                then o3\<lparr>mutatingWebhookConfigName := ''mutating-webhook-configuration''\<rparr>
                else o3);
          o5 = (if validatingWebhookConfigName o4 = []
                then o4\<lparr>validatingWebhookConfigName := ''validating-webhook-configuration''\<rparr>
                else o4)
      in if host o5 = None \<and> service o5 = None then o5\<lparr>host := Some ''localhost''\<rparr> else o5)"

definition getClientConfig :: "generatorOptions \<Rightarrow> error + WebhookClientConfig" where
  "getClientConfig opts =
     (if host opts \<noteq> None \<and> service opts \<noteq> None then
        Inl (errors_New (''URL and service can'' @ [CHR 0x27] @ ''t be set at the same time''))
      else
        (let cc = \<lparr>URL = None, Service = None, CABundle = []\<rparr>;
             cc1 = (case host opts of
                      None \<Rightarrow> cc
                    | Some h \<Rightarrow>
                        cc\<lparr>URL := Some (URL_String
                          \<lparr>Scheme = ''https'',
                           Host = JoinHostPort h (Itoa (sint (port opts))),
                           Path = []\<rparr>)\<rparr>);
             cc2 = (case service opts of
                      None \<Rightarrow> cc1
                    | Some s \<Rightarrow>
                        cc1\<lparr>Service := Some
                          \<lparr>ServiceReference.Namespace = namespace s,
                           ServiceReference.Name = service.name s,
                           ServiceReference.Path = None\<rparr>\<rparr>)
         in Inr cc2))"

text \<open>
  \<open>setPath\<close> changes the client config it is given and returns an error or \<open>nil\<close>;
  the model returns the error (\<open>None\<close> for \<open>nil\<close>) and the client config as left.
\<close>

definition setPath :: "WebhookClientConfig \<Rightarrow> string \<Rightarrow> error option \<times> WebhookClientConfig" where
  "setPath cc p =
     (let set_service = (\<lambda>c. case Service c of
                                 None \<Rightarrow> c
                               | Some r \<Rightarrow> c\<lparr>Service := Some (r\<lparr>ServiceReference.Path := Some p\<rparr>)\<rparr>)
      in case URL cc of
           None \<Rightarrow> (None, set_service cc)
         | Some s \<Rightarrow>
            (case url_Parse s of
               Inl err \<Rightarrow> (Some err, cc)
             | Inr u \<Rightarrow> (None, set_service (cc\<lparr>URL := Some (URL_String (u\<lparr>URL.Path := p\<rparr>))\<rparr>))))"

text \<open>
  \<open>getClientConfigWithPath\<close> returns the pair that Go returns: the client config
  (\<open>None\<close> for the \<open>nil\<close> pointer) and the error (\<open>None\<close> for \<open>nil\<close>).
\<close>

definition getClientConfigWithPath ::
  "generatorOptions \<Rightarrow> string \<Rightarrow> WebhookClientConfig option \<times> error option" where
  "getClientConfigWithPath opts p =
     (case getClientConfig opts of
        Inl err \<Rightarrow> (None, Some err)
      | Inr cc \<Rightarrow> (case setPath cc p of (err, cc') \<Rightarrow> (Some cc', err)))"

text \<open>
  The default namespace selector: the label \<open>control-plane\<close> must not exist.
\<close>

definition default_namespaceSelector :: LabelSelector where
  "default_namespaceSelector =
     \<lparr>MatchLabels = Map.empty,
      MatchExpressions =
        [\<lparr>Key = ''control-plane'', Operator = LabelSelectorOpDoesNotExist, Values = []\<rparr>]\<rparr>"

text \<open>
  Lines 275 to 284 of the method \<open>admissionWebhook\<close>: a descriptor without a
  namespace selector gets the default one when a service with a namespace is set.
\<close>

definition defaultSelector :: "generatorOptions \<Rightarrow> admissionWebhook \<Rightarrow> admissionWebhook" where
  "defaultSelector opts wh =
     (if namespaceSelector wh = None \<and>
         (case service opts of None \<Rightarrow> False | Some s \<Rightarrow> namespace s \<noteq> [])
      then wh\<lparr>namespaceSelector := Some default_namespaceSelector\<rparr>
      else wh)"

text \<open>
  The method \<open>admissionWebhook\<close> of the options: the webhook entry for one descriptor.
  It writes the default selector into the descriptor, so the descriptor is returned
  too. Dereferencing a \<open>nil\<close> client config would panic; the last case stands for it.
\<close>

definition admissionWebhook ::
  "generatorOptions \<Rightarrow> string \<Rightarrow> admissionWebhook \<Rightarrow>
   (error + v1beta1_Webhook) \<times> admissionWebhook" where
  "admissionWebhook opts p wh =
     (let wh1 = defaultSelector opts wh;
          webhook = \<lparr>Name = name wh1,
                     ClientConfig = \<lparr>URL = None, Service = None, CABundle = []\<rparr>,
                     Rules = rules wh1,
                     FailurePolicy = failurePolicy wh1,
                     NamespaceSelector = namespaceSelector wh1\<rparr>
      in case getClientConfigWithPath opts p of
           (_, Some err) \<Rightarrow> (Inl err, wh1)
         | (Some cc, None) \<Rightarrow> (Inr (webhook\<lparr>ClientConfig := cc\<rparr>), wh1)
         | (None, None) \<Rightarrow> (Inl (errors_New ''panic: nil pointer dereference''), wh1))"

text \<open>
  Go does not fix the order in which \<open>range\<close> visits the keys of a map, and two
  loops over one map may see two orders. Each loop over the registry therefore takes
  the order of its visit as an argument, a list of keys; \<open>range_order\<close> says that the
  list holds every key of the map once. A key that is not in the map is passed over.
\<close>

definition range_order :: "('k \<rightharpoonup> 'v) \<Rightarrow> 'k list \<Rightarrow> bool" where
  "range_order m ks \<longleftrightarrow> distinct ks \<and> set ks = dom m"

text \<open>The first loop of \<open>whConfigs\<close>: validate every descriptor, stop at the first error.\<close>

fun validate_loop ::
  "string list \<Rightarrow> (string \<rightharpoonup> admissionWebhook) \<Rightarrow>
   error option \<times> (string \<rightharpoonup> admissionWebhook)" where
  "validate_loop [] m = (None, m)"
| "validate_loop (k # ks) m =
     (case m k of
        None \<Rightarrow> validate_loop ks m
      | Some webhook \<Rightarrow>
         (case Validate webhook of
            (Some err, w') \<Rightarrow> (Some err, m(k \<mapsto> w'))
          | (None, w') \<Rightarrow> validate_loop ks (m(k \<mapsto> w'))))"

text \<open>
  The loops of \<open>mutatingWHConfigs\<close> and \<open>validatingWHConfigs\<close> have one body, up to
  the type they keep: pass over a descriptor of another type, build the entry of one
  of this type and append it, stop at the first error.
\<close>

fun webhooks_loop ::
  "generatorOptions \<Rightarrow> webhookType \<Rightarrow> string list \<Rightarrow> (string \<rightharpoonup> admissionWebhook) \<Rightarrow>
   v1beta1_Webhook list \<Rightarrow> (error + v1beta1_Webhook list) \<times> (string \<rightharpoonup> admissionWebhook)" where
  "webhooks_loop opts ty [] m acc = (Inr acc, m)"
| "webhooks_loop opts ty (k # ks) m acc =
     (case m k of
        None \<Rightarrow> webhooks_loop opts ty ks m acc
      | Some webhook \<Rightarrow>
         (case GetType webhook of
            (ty', w1) \<Rightarrow>
              if ty' \<noteq> ty then webhooks_loop opts ty ks (m(k \<mapsto> w1)) acc
              else
                (case admissionWebhook opts k w1 of
                   (Inl err, w2) \<Rightarrow> (Inl err, m(k \<mapsto> w2))
                 | (Inr wh, w2) \<Rightarrow> webhooks_loop opts ty ks (m(k \<mapsto> w2)) (acc @ [wh]))))"

text \<open>
  \<open>sort.Slice\<close> with the comparison of the two loops, \<open>Name\<close> below \<open>Name\<close> as byte
  strings. Go promises a sorted permutation and no stability. Its implementation sorts
  a slice of up to twelve elements by insertion, which keeps elements of equal name in
  their order; \<open>sort_key\<close> is that insertion sort.
\<close>

definition sort_Slice_Name :: "v1beta1_Webhook list \<Rightarrow> v1beta1_Webhook list" where
  "sort_Slice_Name whs = sort_key Name whs"

definition registry_map :: "generatorOptions \<Rightarrow> (string \<rightharpoonup> admissionWebhook)" where
  "registry_map opts = (case registry opts of None \<Rightarrow> Map.empty | Some m \<Rightarrow> m)"

text \<open>Writing the descriptors back: a \<open>nil\<close> registry has none and stays \<open>nil\<close>.\<close>

definition with_registry :: "generatorOptions \<Rightarrow> (string \<rightharpoonup> admissionWebhook) \<Rightarrow> generatorOptions" where
  "with_registry opts m = opts\<lparr>registry := map_option (\<lambda>_. m) (registry opts)\<rparr>"

text \<open>
  \<open>metav1.GroupVersion{Group: admissionregistration.GroupName, Version: "v1beta1"}.String()\<close>
  is group, slash, version.
\<close>

definition admissionregistration_v1beta1 :: string where
  "admissionregistration_v1beta1 = ''admissionregistration.k8s.io/v1beta1''"

text \<open>
  The object that \<open>mutatingWHConfigs\<close> returns for its sorted entries (lines 219 to
  231), and the one of \<open>validatingWHConfigs\<close> (lines 257 to 269).
\<close>

definition mutatingWebhookConfiguration ::
  "generatorOptions \<Rightarrow> v1beta1_Webhook list \<Rightarrow> runtime_Object" where
  "mutatingWebhookConfiguration opts mutatingWebhooks =
     MutatingWebhookConfiguration
       \<lparr>TypeMeta = \<lparr>APIVersion = admissionregistration_v1beta1,
                    Kind = ''MutatingWebhookConfiguration''\<rparr>,
        ObjectMeta = \<lparr>ObjectMeta.Name = mutatingWebhookConfigName opts,
                      ObjectMeta.Namespace = [],
                      Annotations =
                        [''admissionwebhook.alpha.kubebuilder.io/ca-secret-name''
                           \<mapsto> ''webhook-cert'']\<rparr>,
        Webhooks = mutatingWebhooks\<rparr>"

definition validatingWebhookConfiguration ::
  "generatorOptions \<Rightarrow> v1beta1_Webhook list \<Rightarrow> runtime_Object" where
  "validatingWebhookConfiguration opts validatingWebhooks =
     ValidatingWebhookConfiguration
       \<lparr>TypeMeta = \<lparr>APIVersion = admissionregistration_v1beta1,
                    Kind = ''ValidatingWebhookConfiguration''\<rparr>,
        ObjectMeta = \<lparr>ObjectMeta.Name = validatingWebhookConfigName opts,
                      ObjectMeta.Namespace = [],
                      Annotations =
                        [''admission.alpha.kubebuilder.io/ca-secret-name''
                           \<mapsto> ''webhook-cert'']\<rparr>,
        Webhooks = validatingWebhooks\<rparr>"

definition mutatingWHConfigs ::
  "generatorOptions \<Rightarrow> string list \<Rightarrow> (error + runtime_Object option) \<times> generatorOptions" where
  "mutatingWHConfigs opts ks =
     (case webhooks_loop opts webhookTypeMutating ks (registry_map opts) [] of
        (Inl err, m) \<Rightarrow> (Inl err, with_registry opts m)
      | (Inr whs, m) \<Rightarrow>
         (let mutatingWebhooks = sort_Slice_Name whs
          in (if length mutatingWebhooks > 0
              then Inr (Some (mutatingWebhookConfiguration opts mutatingWebhooks))
              else Inr None,
              with_registry opts m)))"

definition validatingWHConfigs ::
  "generatorOptions \<Rightarrow> string list \<Rightarrow> (error + runtime_Object option) \<times> generatorOptions" where
  "validatingWHConfigs opts ks =
     (case webhooks_loop opts webhookTypeValidating ks (registry_map opts) [] of
        (Inl err, m) \<Rightarrow> (Inl err, with_registry opts m)
      | (Inr whs, m) \<Rightarrow>
         (let validatingWebhooks = sort_Slice_Name whs
          in (if length validatingWebhooks > 0
              then Inr (Some (validatingWebhookConfiguration opts validatingWebhooks))
              else Inr None,
              with_registry opts m)))"

text \<open>
  \<open>whConfigs\<close>, with the orders of its three loops: \<open>kv\<close> for the validation,
  \<open>km\<close> for the mutating and \<open>kw\<close> for the validating webhooks.
\<close>

definition whConfigs ::
  "generatorOptions \<Rightarrow> string list \<Rightarrow> string list \<Rightarrow> string list \<Rightarrow>
   (error + runtime_Object option list) \<times> generatorOptions" where
  "whConfigs opts kv km kw =
     (case validate_loop kv (registry_map opts) of
        (Some err, m) \<Rightarrow> (Inl err, with_registry opts m)
      | (None, m) \<Rightarrow>
         (let o1 = with_registry opts m; objs = [] in
          case mutatingWHConfigs o1 km of
            (Inl err, o2) \<Rightarrow> (Inl err, o2)
          | (Inr mutatingWH, o2) \<Rightarrow>
             (let objs1 = (if mutatingWH \<noteq> None then objs @ [mutatingWH] else objs) in
              case validatingWHConfigs o2 kw of
                (Inl err, o3) \<Rightarrow> (Inl err, o3)
              | (Inr validatingWH, o3) \<Rightarrow>
                 (Inr (if validatingWH \<noteq> None then objs1 @ [validatingWH] else objs1), o3))))"

definition getService :: "generatorOptions \<Rightarrow> runtime_Object option" where
  "getService opts =
     (case service opts of
        None \<Rightarrow> None
      | Some s \<Rightarrow>
         Some (Service_Object
           \<lparr>corev1_Service.TypeMeta = \<lparr>APIVersion = ''v1'', Kind = ''Service''\<rparr>,
            corev1_Service.ObjectMeta = \<lparr>ObjectMeta.Name = service.name s,
                          ObjectMeta.Namespace = namespace s,
                          Annotations =
                            [''service.alpha.kubebuilder.io/serving-cert-secret-name''
                               \<mapsto> ''webhook-cert'']\<rparr>,
            Spec = \<lparr>Selector = selectors s,
                    Ports = [\<lparr>Port = 443, TargetPort = IntVal (port opts)\<rparr>]\<rparr>\<rparr>))"

text \<open>
  \<open>Generate\<close>: the objects or the error, and the options as the call leaves them.
\<close>

definition Generate ::
  "generatorOptions \<Rightarrow> string list \<Rightarrow> string list \<Rightarrow> string list \<Rightarrow>
   (error + runtime_Object option list) \<times> generatorOptions" where
  "Generate opts kv km kw =
     (let o1 = setDefault opts in
      case whConfigs o1 kv km kw of
        (Inl err, o2) \<Rightarrow> (Inl err, o2)
      | (Inr webhookConfigurations, o2) \<Rightarrow>
         (let svc = getService o2;
              objects = webhookConfigurations @ [svc]
          in (Inr objects, o2)))"

section \<open>Example inputs\<close>

text \<open>A rule for the resource \<open>pods\<close>, and a descriptor as a caller builds it.\<close>

definition pods_rule :: RuleWithOperations where
  "pods_rule =
     \<lparr>Operations = [''CREATE''], APIGroups = [[]], APIVersions = [''v1''],
      Resources = [''pods'']\<rparr>"

definition descriptor ::
  "string \<Rightarrow> webhookType \<Rightarrow> string \<Rightarrow> RuleWithOperations list \<Rightarrow> admissionWebhook" where
  "descriptor n ty p rs =
     \<lparr>name = n, t = ty, path = p, rules = rs, failurePolicy = None,
      namespaceSelector = None, once = False\<rparr>"

text \<open>
  The zero value of the options, a service, and options with both a service and a
  host.
\<close>

definition zero_options :: generatorOptions where
  "zero_options =
     \<lparr>registry = None, port = 0, certDir = [], mutatingWebhookConfigName = [],
      validatingWebhookConfigName = [], secret = None, service = None, host = None\<rparr>"

definition webhook_service :: service where
  "webhook_service =
     \<lparr>service.name = ''webhook-service'', namespace = ''system'',
      selectors = [''app'' \<mapsto> ''webhook'']\<rparr>"

definition both_options :: generatorOptions where
  "both_options =
     zero_options\<lparr>service := Some webhook_service, host := Some ''example.com''\<rparr>"

section \<open>Defaulting of a descriptor\<close>

lemma ReplaceAllString_filter: "ReplaceAllString s = filter isAlnum s"
proof (induction s rule: ReplaceAllString.induct)
  case 1
  show ?case by simp
next
  case (2 c cs)
  show ?case
  proof (cases "isAlnum c")
    case True
    with 2 show ?thesis by simp
  next
    case False
    have "filter isAlnum (dropWhile (\<lambda>d. \<not> isAlnum d) cs) = filter isAlnum cs"
      by (induction cs) auto
    with False 2 show ?thesis by simp
  qed
qed

lemma defaultName_fixed: "name w \<noteq> [] \<Longrightarrow> defaultName w = w"
  by (simp add: defaultName_def)

lemma setDefaults_idem: "setDefaults (setDefaults w) = setDefaults w"
  by (auto simp: setDefaults_def defaultName_def split: list.splits)

text \<open>
  Claim C4. A descriptor with an empty path whose first rule has a first resource gets
  the path \<open>/mutate-\<close> or \<open>/validate-\<close> followed by that resource, by its type.
  With an empty path and no rule, or no resource in the first rule, \<open>setDefaults\<close>
  changes nothing, so the path stays empty; the function has no error to return.
\<close>

theorem setDefaults_path:
  "(path w = [] \<and> rules w = r # rs \<and> Resources r = res # ress \<and> t w = webhookTypeMutating
      \<longrightarrow> path (setDefaults w) = ''/mutate-'' @ res) \<and>
   (path w = [] \<and> rules w = r # rs \<and> Resources r = res # ress \<and> t w = webhookTypeValidating
      \<longrightarrow> path (setDefaults w) = ''/validate-'' @ res) \<and>
   (path w = [] \<and> (rules w = [] \<or> (\<exists>r' rs'. rules w = r' # rs' \<and> Resources r' = []))
      \<longrightarrow> setDefaults w = w \<and> path (setDefaults w) = [])"
  by (auto simp: setDefaults_def defaultName_def)

theorem setDefaults_path_witness:
  "path (setDefaults (descriptor [] webhookTypeMutating [] [pods_rule])) = ''/mutate-pods'' \<and>
   path (setDefaults (descriptor [] webhookTypeValidating [] [pods_rule])) = ''/validate-pods'' \<and>
   path (setDefaults (descriptor [] webhookTypeValidating [] [])) = [] \<and>
   path (setDefaults (descriptor [] webhookTypeMutating [] [pods_rule\<lparr>Resources := []\<rparr>])) = []"
  using
    setDefaults_path [of "descriptor [] webhookTypeMutating [] [pods_rule]"
      pods_rule "[]" "''pods''" "[]"]
    setDefaults_path [of "descriptor [] webhookTypeValidating [] [pods_rule]"
      pods_rule "[]" "''pods''" "[]"]
    setDefaults_path [of "descriptor [] webhookTypeValidating [] []"]
    setDefaults_path [of "descriptor [] webhookTypeMutating [] [pods_rule\<lparr>Resources := []\<rparr>]"]
  by (simp add: descriptor_def pods_rule_def setDefaults_def defaultName_def)

text \<open>
  Claim C5, as stated, fails: a descriptor with an empty name, an empty path and no
  rules keeps its empty name, where the name derived from its path would be
  \<open>.example.com\<close>. The early return of \<open>setDefaults\<close> skips the name too.
\<close>

theorem setDefaults_name_counterexample:
  "name (descriptor [] webhookTypeMutating [] []) = [] \<and>
   name (setDefaults (descriptor [] webhookTypeMutating [] [])) = [] \<and>
   map toLower (filter isAlnum (path (setDefaults (descriptor [] webhookTypeMutating [] [])))) @
     ''.example.com'' = ''.example.com''"
  by (simp add: descriptor_def setDefaults_def)

text \<open>
  Claim C5, amended. A descriptor with an empty name gets the name derived from its
  path as \<open>setDefaults\<close> leaves it (every byte that is not an ASCII letter or
  digit removed, the rest in lower case, \<open>.example.com\<close> appended) whenever its path
  is not empty or its first rule has a first resource. With an empty path and no rule,
  or no resource in the first rule, the name stays empty.
\<close>

theorem setDefaults_name:
  "(name w = [] \<and>
    (path w \<noteq> [] \<or> (\<exists>r rs res ress. rules w = r # rs \<and> Resources r = res # ress))
      \<longrightarrow> name (setDefaults w) =
           map toLower (filter isAlnum (path (setDefaults w))) @ ''.example.com'') \<and>
   (name w = [] \<and> path w = [] \<and>
    (rules w = [] \<or> (\<exists>r rs. rules w = r # rs \<and> Resources r = []))
      \<longrightarrow> name (setDefaults w) = [])"
  by (auto simp: setDefaults_def defaultName_def ToLower_def ReplaceAllString_filter)

theorem setDefaults_name_witness:
  "name (setDefaults (descriptor [] webhookTypeMutating ''/mutate-pods'' [])) =
     ''mutatepods.example.com'' \<and>
   name (setDefaults (descriptor [] webhookTypeValidating [] [pods_rule])) =
     ''validatepods.example.com'' \<and>
   name (setDefaults (descriptor [] webhookTypeValidating [] [])) = []"
  using
    setDefaults_name [of "descriptor [] webhookTypeMutating ''/mutate-pods'' []"]
    setDefaults_name [of "descriptor [] webhookTypeValidating [] [pods_rule]"]
    setDefaults_name [of "descriptor [] webhookTypeValidating [] []"]
  by (simp add: descriptor_def pods_rule_def setDefaults_def defaultName_def isAlnum_def
      toLower_def)

section \<open>Validation of a descriptor\<close>

text \<open>
  Claim C6. \<open>Validate\<close> first runs the defaulting under the guard. On the descriptor
  as that leaves it, it returns an error exactly when the rules are empty, the name is
  empty, the type is neither mutating nor validating, or the path is empty; the checks
  run in this order and the first that fails gives the error.
\<close>

theorem Validate_checks:
  "snd (Validate w) = once_Do setDefaults w \<and>
   (fst (Validate w) \<noteq> None \<longleftrightarrow>
      rules (snd (Validate w)) = [] \<or> name (snd (Validate w)) = [] \<or>
      (t (snd (Validate w)) \<noteq> webhookTypeMutating \<and>
       t (snd (Validate w)) \<noteq> webhookTypeValidating) \<or>
      path (snd (Validate w)) = []) \<and>
   (rules (snd (Validate w)) = [] \<longrightarrow>
      fst (Validate w) = Some (errors_New ''field rules should not be empty'')) \<and>
   (rules (snd (Validate w)) \<noteq> [] \<and> name (snd (Validate w)) = [] \<longrightarrow>
      fst (Validate w) = Some (errors_New ''field name should not be empty'')) \<and>
   (rules (snd (Validate w)) \<noteq> [] \<and> name (snd (Validate w)) \<noteq> [] \<and>
    t (snd (Validate w)) \<noteq> webhookTypeMutating \<and>
    t (snd (Validate w)) \<noteq> webhookTypeValidating \<longrightarrow>
      fst (Validate w) = Some (unsupported_Type (t (snd (Validate w))))) \<and>
   (rules (snd (Validate w)) \<noteq> [] \<and> name (snd (Validate w)) \<noteq> [] \<and>
    (t (snd (Validate w)) = webhookTypeMutating \<or>
     t (snd (Validate w)) = webhookTypeValidating) \<and>
    path (snd (Validate w)) = [] \<longrightarrow>
      fst (Validate w) = Some (errors_New ''field path should not be empty''))"
  by (simp add: Validate_def Let_def)

theorem Validate_checks_witness:
  "fst (Validate (descriptor ''a'' webhookTypeMutating ''/a'' [])) =
     Some (errors_New ''field rules should not be empty'') \<and>
   fst (Validate (descriptor [] webhookTypeMutating [] [pods_rule\<lparr>Resources := []\<rparr>])) =
     Some (errors_New ''field name should not be empty'') \<and>
   fst (Validate (descriptor ''a'' (webhookTypeOther 0) ''/a'' [pods_rule])) =
     Some (unsupported_Type (webhookTypeOther 0)) \<and>
   fst (Validate (descriptor ''a'' webhookTypeValidating [] [pods_rule\<lparr>Resources := []\<rparr>])) =
     Some (errors_New ''field path should not be empty'') \<and>
   fst (Validate (descriptor [] webhookTypeValidating [] [pods_rule])) = None"
  using
    Validate_checks [of "descriptor ''a'' webhookTypeMutating ''/a'' []"]
    Validate_checks [of "descriptor [] webhookTypeMutating [] [pods_rule\<lparr>Resources := []\<rparr>]"]
    Validate_checks [of "descriptor ''a'' (webhookTypeOther 0) ''/a'' [pods_rule]"]
    Validate_checks [of "descriptor ''a'' webhookTypeValidating [] [pods_rule\<lparr>Resources := []\<rparr>]"]
    Validate_checks [of "descriptor [] webhookTypeValidating [] [pods_rule]"]
  by (simp add: descriptor_def pods_rule_def Validate_def Let_def once_Do_def setDefaults_def
      defaultName_def)

section \<open>The guard of the defaulting\<close>

lemma call_once_Do: "call a w = once_Do setDefaults w"
  by (cases a) (simp_all add: GetName_def GetPath_def GetType_def Validate_def Let_def)

lemma once_once_Do [simp]: "once (once_Do f w)"
  by (simp add: once_Do_def)

lemma once_Do_done: "once w \<Longrightarrow> once_Do f w = w"
  by (simp add: once_Do_def)

lemma calls_done: "once w \<Longrightarrow> calls as w = w"
  by (induction as arbitrary: w) (simp_all add: call_once_Do once_Do_done)

lemma setDefaults_runs_done: "once w \<Longrightarrow> setDefaults_runs as w = 0"
  by (induction as arbitrary: w) (simp_all add: call_once_Do once_Do_done)

text \<open>
  Claim C9. Running \<open>setDefaults\<close> twice leaves the descriptor as running it once
  does. Through the accessors \<open>GetName\<close>, \<open>GetPath\<close>, \<open>GetType\<close> and
  \<open>Validate\<close> it runs at most once, however many calls are made: a non-empty sequence
  of calls on a descriptor whose guard is unset runs it exactly once and leaves the
  descriptor as one run does, with the guard set; with the guard set no call runs it
  and the descriptor stays as it is.
\<close>

theorem defaulting_once:
  "setDefaults (setDefaults w) = setDefaults w \<and>
   setDefaults_runs as w \<le> 1 \<and>
   (\<not> once w \<and> as \<noteq> [] \<longrightarrow>
      setDefaults_runs as w = 1 \<and> calls as w = (setDefaults w)\<lparr>once := True\<rparr>) \<and>
   (once w \<longrightarrow> setDefaults_runs as w = 0 \<and> calls as w = w)"
proof (cases as)
  case Nil
  then show ?thesis by (simp add: setDefaults_idem)
next
  case (Cons a as')
  have "once (call a w)" by (simp add: call_once_Do)
  then have "setDefaults_runs as' (call a w) = 0" "calls as' (call a w) = call a w"
    by (simp_all add: setDefaults_runs_done calls_done)
  with Cons show ?thesis
    by (cases "once w") (simp_all add: setDefaults_idem call_once_Do once_Do_def)
qed

theorem defaulting_once_witness:
  "setDefaults_runs [call_GetType, call_Validate, call_GetName, call_GetPath]
     (descriptor [] webhookTypeMutating [] [pods_rule]) = 1 \<and>
   name (calls [call_GetType, call_Validate, call_GetName, call_GetPath]
     (descriptor [] webhookTypeMutating [] [pods_rule])) = ''mutatepods.example.com'' \<and>
   calls [call_GetName] ((descriptor [] webhookTypeMutating [] [pods_rule])\<lparr>once := True\<rparr>) =
     (descriptor [] webhookTypeMutating [] [pods_rule])\<lparr>once := True\<rparr>"
  using
    defaulting_once [of "descriptor [] webhookTypeMutating [] [pods_rule]"
      "[call_GetType, call_Validate, call_GetName, call_GetPath]"]
    defaulting_once [of "(descriptor [] webhookTypeMutating [] [pods_rule])\<lparr>once := True\<rparr>"
      "[call_GetName]"]
  by (simp add: descriptor_def pods_rule_def setDefaults_def defaultName_def ToLower_def
      ReplaceAllString_filter isAlnum_def toLower_def)

section \<open>Defaulting of the options\<close>

lemma host_setDefault:
  "host (setDefault opts) =
     (if host opts = None \<and> service opts = None then Some ''localhost'' else host opts)"
  by (simp add: setDefault_def Let_def)

lemma service_setDefault [simp]: "service (setDefault opts) = service opts"
  by (simp add: setDefault_def Let_def)

lemma registry_map_setDefault [simp]: "registry_map (setDefault opts) = registry_map opts"
  by (simp add: setDefault_def Let_def registry_map_def)

text \<open>
  Claim C2, as stated, fails: options given both a service and a host still have both
  after \<open>setDefault\<close>, which only fills the host in when both are missing.
\<close>

theorem setDefault_both_counterexample:
  "host (setDefault both_options) \<noteq> None \<and> service (setDefault both_options) \<noteq> None"
  by (simp add: host_setDefault both_options_def zero_options_def)

text \<open>
  Claim C2, amended. After \<open>setDefault\<close> at least one of service and host is set.
  When neither was given the host is \<open>localhost\<close> and the service stays unset; when
  at most one was given exactly one is set afterwards; when both were given both stay
  as given (the conflict is left to \<open>getClientConfig\<close>).
\<close>

theorem setDefault_target:
  "(host (setDefault opts) \<noteq> None \<or> service (setDefault opts) \<noteq> None) \<and>
   (host opts = None \<and> service opts = None \<longrightarrow>
      host (setDefault opts) = Some ''localhost'' \<and> service (setDefault opts) = None) \<and>
   (host opts = None \<or> service opts = None \<longrightarrow>
      (host (setDefault opts) = None) \<noteq> (service (setDefault opts) = None)) \<and>
   (host opts \<noteq> None \<and> service opts \<noteq> None \<longrightarrow>
      host (setDefault opts) = host opts \<and> service (setDefault opts) = service opts)"
  by (auto simp: host_setDefault)

theorem setDefault_target_witness:
  "host (setDefault zero_options) = Some ''localhost'' \<and>
   service (setDefault zero_options) = None \<and>
   host (setDefault (zero_options\<lparr>service := Some webhook_service\<rparr>)) = None \<and>
   service (setDefault (zero_options\<lparr>service := Some webhook_service\<rparr>)) =
     Some webhook_service \<and>
   host (setDefault both_options) = Some ''example.com'' \<and>
   service (setDefault both_options) = Some webhook_service"
  using setDefault_target [of zero_options]
    setDefault_target [of "zero_options\<lparr>service := Some webhook_service\<rparr>"]
    setDefault_target [of both_options]
  by (simp add: zero_options_def both_options_def)

section \<open>Generation from an empty registry\<close>

lemma validate_loop_empty: "validate_loop ks Map.empty = (None, Map.empty)"
  by (induction ks) simp_all

lemma webhooks_loop_empty: "webhooks_loop opts ty ks Map.empty acc = (Inr acc, Map.empty)"
  by (induction ks) simp_all

lemma whConfigs_empty:
  "registry_map opts = Map.empty \<Longrightarrow> fst (whConfigs opts kv km kw) = Inr []"
  by (simp add: whConfigs_def validate_loop_empty mutatingWHConfigs_def validatingWHConfigs_def
      webhooks_loop_empty registry_map_def with_registry_def sort_Slice_Name_def
      split: option.splits)

lemma service_whConfigs [simp]: "service (snd (whConfigs opts kv km kw)) = service opts"
  by (simp add: whConfigs_def mutatingWHConfigs_def validatingWHConfigs_def with_registry_def
      Let_def split: prod.splits option.splits sum.splits)

lemma port_whConfigs [simp]: "port (snd (whConfigs opts kv km kw)) = port opts"
  by (simp add: whConfigs_def mutatingWHConfigs_def validatingWHConfigs_def with_registry_def
      Let_def split: prod.splits option.splits sum.splits)

lemma getService_cong:
  "service a = service b \<Longrightarrow> port a = port b \<Longrightarrow> getService a = getService b"
  by (simp add: getService_def split: option.splits)

lemma Generate_empty:
  assumes "registry_map opts = Map.empty"
  shows "fst (Generate opts kv km kw) = Inr [getService (setDefault opts)]"
proof -
  have "fst (whConfigs (setDefault opts) kv km kw) = Inr []"
    using assms by (simp add: whConfigs_empty)
  moreover have
    "getService (snd (whConfigs (setDefault opts) kv km kw)) = getService (setDefault opts)"
    by (rule getService_cong) simp_all
  ultimately show ?thesis
    by (cases "whConfigs (setDefault opts) kv km kw") (auto simp: Generate_def Let_def)
qed

text \<open>
  Claim C1 holds of the documented behaviour and not of the code. With the zero options
  (no registry, no service) \<open>Generate\<close> returns a list of one element, the \<open>nil\<close>
  object that \<open>getService\<close> returned: \<open>Generate\<close> appends the result of
  \<open>getService\<close> without the test for \<open>nil\<close> that \<open>whConfigs\<close> makes before each
  of its two appends.
\<close>

theorem Generate_nil_entry:
  "fst (Generate zero_options [] [] []) = Inr [None]"
  using Generate_empty [of zero_options "[]" "[]" "[]"]
  by (simp add: zero_options_def registry_map_def getService_def)

text \<open>
  Claim C10. With both a host and a service set and an empty registry, \<open>Generate\<close>
  returns its list of objects and no error, whatever the orders of the loops; so an
  error of \<open>Generate\<close>, the conflict of host and service among them, needs a registry
  with a descriptor in it.
\<close>

theorem Generate_conflict_needs_descriptor:
  "(host opts \<noteq> None \<and> service opts \<noteq> None \<and> registry_map opts = Map.empty \<longrightarrow>
      fst (Generate opts kv km kw) = Inr [getService (setDefault opts)]) \<and>
   (fst (Generate opts kv km kw) = Inl err \<longrightarrow> registry_map opts \<noteq> Map.empty)"
  using Generate_empty [of opts kv km kw] by auto

lemma Generate_conflict_example:
  "fst (Generate
     (both_options\<lparr>registry :=
        Some [''/a'' \<mapsto> descriptor [] webhookTypeMutating [] [pods_rule]]\<rparr>)
     [''/a''] [''/a''] [''/a'']) =
   Inl (errors_New (''URL and service can'' @ [CHR 0x27] @ ''t be set at the same time''))"
  by (simp add: Generate_def setDefault_def both_options_def zero_options_def Let_def
      whConfigs_def registry_map_def with_registry_def Validate_def once_Do_def setDefaults_def
      defaultName_def descriptor_def pods_rule_def mutatingWHConfigs_def GetType_def
      admissionWebhook_def defaultSelector_def getClientConfigWithPath_def getClientConfig_def webhook_service_def)

theorem Generate_conflict_needs_descriptor_witness:
  "fst (Generate both_options [] [] []) = Inr [getService (setDefault both_options)] \<and>
   getService (setDefault both_options) \<noteq> None \<and>
   fst (Generate
     (both_options\<lparr>registry :=
        Some [''/a'' \<mapsto> descriptor [] webhookTypeMutating [] [pods_rule]]\<rparr>)
     [''/a''] [''/a''] [''/a'']) =
   Inl (errors_New (''URL and service can'' @ [CHR 0x27] @ ''t be set at the same time'')) \<and>
   registry_map
     (both_options\<lparr>registry :=
        Some [''/a'' \<mapsto> descriptor [] webhookTypeMutating [] [pods_rule]]\<rparr>) \<noteq> Map.empty"
  using Generate_conflict_needs_descriptor [of both_options "[]" "[]" "[]"]
    Generate_conflict_needs_descriptor [of
      "both_options\<lparr>registry :=
         Some [''/a'' \<mapsto> descriptor [] webhookTypeMutating [] [pods_rule]]\<rparr>"
      "[''/a'']" "[''/a'']" "[''/a'']"
      "errors_New (''URL and service can'' @ [CHR 0x27] @ ''t be set at the same time'')"]
    Generate_conflict_example
  by (simp add: both_options_def zero_options_def registry_map_def getService_def)

section \<open>The client config\<close>

lemma digit_nth: "k < 10 \<Longrightarrow> CHR ''0'' \<le> ''0123456789'' ! k \<and> ''0123456789'' ! k \<le> CHR ''9''"
proof -
  assume "k < 10"
  then have "k \<in> {0, 1, 2, 3, 4, 5, 6, 7, 8, 9}" by auto
  then show ?thesis by auto
qed

lemma FormatUint_digits:
  "c \<in> set (FormatUint n) \<Longrightarrow> CHR ''0'' \<le> c \<and> c \<le> CHR ''9''"
proof (induction n arbitrary: c rule: FormatUint.induct)
  case (1 n)
  show ?case
  proof (cases "n < 10")
    case True
    with "1.prems" have "c = ''0123456789'' ! n"
      by (subst (asm) FormatUint.simps) simp
    with True digit_nth [of n] show ?thesis by simp
  next
    case False
    with "1.prems" have "c \<in> set (FormatUint (n div 10)) \<or> c = ''0123456789'' ! (n mod 10)"
      by (subst (asm) FormatUint.simps) auto
    then show ?thesis
    proof
      assume "c \<in> set (FormatUint (n div 10))"
      with False "1.IH" show ?thesis by blast
    next
      assume "c = ''0123456789'' ! (n mod 10)"
      with digit_nth [of "n mod 10"] show ?thesis by simp
    qed
  qed
qed

lemma Itoa_digits:
  "0 \<le> i \<Longrightarrow> c \<in> set (Itoa i) \<Longrightarrow> CHR ''0'' \<le> c \<and> c \<le> CHR ''9''"
  using FormatUint_digits [of c "nat i"] by (simp add: Itoa_def)

lemma digit_not_escaped: "CHR ''0'' \<le> c \<and> c \<le> CHR ''9'' \<Longrightarrow> \<not> shouldEscape c mode"
  by (simp add: shouldEscape_def isAlnum_def)

lemma escape_plain: "\<forall>c \<in> set s. \<not> shouldEscape c mode \<Longrightarrow> escape s mode = s"
  by (induction s) (simp_all add: escape_def)

lemma percent_escaped: "shouldEscape CHR ''%'' mode"
  by (simp add: shouldEscape_def isAlnum_def)

lemma colon_host: "\<not> shouldEscape CHR '':'' encodeHost"
  by (simp add: shouldEscape_def isAlnum_def)

lemma unescape_plain:
  "\<forall>c \<in> set s. \<not> shouldEscape c encodeHost \<Longrightarrow> unescape encodeHost s = Some s"
proof (induction s)
  case Nil
  show ?case by simp
next
  case (Cons c s)
  then have "c \<noteq> CHR ''%''" using percent_escaped [of encodeHost] by auto
  with Cons show ?case by simp
qed

lemma from_last_append:
  assumes "c \<notin> set ds"
  shows "from_last c (h @ c # ds) = c # ds"
proof -
  have "takeWhile (\<lambda>d. d \<noteq> c) (rev ds @ c # rev h) =
          rev ds @ takeWhile (\<lambda>d. d \<noteq> c) (c # rev h)"
    using assms by (intro takeWhile_append2) auto
  then show ?thesis by (simp add: from_last_def)
qed

lemma parseHost_plain:
  assumes h: "\<forall>c \<in> set h. \<not> shouldEscape c encodeHost" and b: "take 1 h \<noteq> ''[''"
    and ds: "\<forall>c \<in> set ds. CHR ''0'' \<le> c \<and> c \<le> CHR ''9''"
  shows "parseHost (h @ CHR '':'' # ds) = Some (h @ CHR '':'' # ds)"
proof -
  have 1: "take 1 (h @ CHR '':'' # ds) \<noteq> ''[''"
    using b by (cases h) simp_all
  have "CHR '':'' \<notin> set ds" using ds by auto
  then have 2: "from_last CHR '':'' (h @ CHR '':'' # ds) = CHR '':'' # ds"
    by (rule from_last_append)
  have 3: "validOptionalPort (CHR '':'' # ds)"
    using ds by (simp add: validOptionalPort_def)
  have "\<forall>c \<in> set (h @ CHR '':'' # ds). \<not> shouldEscape c encodeHost"
    using h ds colon_host digit_not_escaped by auto
  then have 4: "unescape encodeHost (h @ CHR '':'' # ds) = Some (h @ CHR '':'' # ds)"
    by (rule unescape_plain)
  show ?thesis
    unfolding parseHost_def using 1 2 3 4 by simp
qed

lemma url_Parse_plain:
  assumes h: "\<forall>c \<in> set h. \<not> shouldEscape c encodeHost" and b: "take 1 h \<noteq> ''[''"
    and ds: "\<forall>c \<in> set ds. CHR ''0'' \<le> c \<and> c \<le> CHR ''9''"
  shows "url_Parse (''https://'' @ h @ CHR '':'' # ds) =
           Inr \<lparr>Scheme = ''https'', Host = h @ CHR '':'' # ds, Path = []\<rparr>"
proof -
  have "\<forall>c \<in> set (h @ CHR '':'' # ds). \<not> shouldEscape c encodeHost"
    using h ds colon_host digit_not_escaped by auto
  moreover have "\<forall>c \<in> set ''/?#@''. shouldEscape c encodeHost"
    by (simp add: shouldEscape_def isAlnum_def)
  ultimately have "set (h @ CHR '':'' # ds) \<inter> set ''/?#@'' = {}"
    by blast
  with parseHost_plain [OF h b ds] show ?thesis
    by (simp add: url_Parse_def)
qed

lemma URL_String_plain:
  assumes "\<forall>c \<in> set hp. \<not> shouldEscape c encodeHost" and "hp \<noteq> []"
    and "p = [] \<or> hd p = CHR ''/''" and "\<forall>c \<in> set p. \<not> shouldEscape c encodePath"
  shows "URL_String \<lparr>Scheme = ''https'', Host = hp, Path = p\<rparr> = ''https://'' @ hp @ p"
proof -
  have "p \<noteq> ''*''" using assms(3) by auto
  then show ?thesis
    using assms by (auto simp: URL_String_def EscapedPath_def escape_plain Let_def)
qed

lemma Itoa_443: "Itoa 443 = ''443''"
  by (simp add: Itoa_def FormatUint.simps)

text \<open>
  Claim C8, amended. With a host set and no service, a port that is not negative, a
  host without a colon, not opening a square bracket, whose characters a URL leaves
  unescaped in a host, and a path that is empty or starts with a slash and whose
  characters a URL leaves unescaped in a path, the client config built for the path
  holds the URL \<open>https://\<close> host \<open>:\<close> port path, no service reference and an
  empty CA bundle.
\<close>

theorem getClientConfigWithPath_URL:
  assumes "host opts = Some h" and "service opts = None" and "0 \<le> sint (port opts)"
    and "\<forall>c \<in> set h. \<not> shouldEscape c encodeHost \<and> c \<noteq> CHR '':''"
    and "take 1 h \<noteq> ''[''"
    and "p = [] \<or> hd p = CHR ''/''"
    and "\<forall>c \<in> set p. \<not> shouldEscape c encodePath"
  shows "getClientConfigWithPath opts p =
           (Some \<lparr>URL = Some (''https://'' @ h @ '':'' @ Itoa (sint (port opts)) @ p),
                  Service = None, CABundle = []\<rparr>,
            None)"
proof -
  let ?ds = "Itoa (sint (port opts))"
  let ?hp = "h @ CHR '':'' # ?ds"
  have ds: "\<forall>c \<in> set ?ds. CHR ''0'' \<le> c \<and> c \<le> CHR ''9''"
    using assms(3) Itoa_digits by blast
  have h: "\<forall>c \<in> set h. \<not> shouldEscape c encodeHost"
    using assms(4) by blast
  have hp: "\<forall>c \<in> set ?hp. \<not> shouldEscape c encodeHost"
    using h ds colon_host digit_not_escaped by auto
  have join: "JoinHostPort h ?ds = ?hp"
    using assms(4) by (auto simp: JoinHostPort_def)
  have s1: "URL_String \<lparr>Scheme = ''https'', Host = ?hp, Path = []\<rparr> = ''https://'' @ ?hp"
    using URL_String_plain [of ?hp "[]"] hp by simp
  have s2: "URL_String \<lparr>Scheme = ''https'', Host = ?hp, Path = p\<rparr> = ''https://'' @ ?hp @ p"
    using URL_String_plain [of ?hp p] hp assms(6,7) by simp
  have cc: "getClientConfig opts =
      Inr \<lparr>URL = Some (''https://'' @ ?hp), Service = None, CABundle = []\<rparr>"
    using assms(1,2) join s1 by (simp add: getClientConfig_def)
  have "setPath \<lparr>URL = Some (''https://'' @ ?hp), Service = None, CABundle = []\<rparr> p =
      (None, \<lparr>URL = Some (''https://'' @ ?hp @ p), Service = None, CABundle = []\<rparr>)"
    using url_Parse_plain [OF h assms(5) ds] s2 by (simp add: setPath_def)
  with cc show ?thesis
    by (simp add: getClientConfigWithPath_def)
qed

theorem getClientConfigWithPath_URL_witness:
  "getClientConfigWithPath (zero_options\<lparr>host := Some ''localhost'', port := 443\<rparr>)
     ''/validate-pods'' =
   (Some \<lparr>URL = Some ''https://localhost:443/validate-pods'', Service = None, CABundle = []\<rparr>,
    None)"
  using getClientConfigWithPath_URL
    [of "zero_options\<lparr>host := Some ''localhost'', port := 443\<rparr>" "''localhost''"
      "''/validate-pods''"] Itoa_443
  by (simp add: zero_options_def shouldEscape_def isAlnum_def)

text \<open>
  Claim C8, as stated for every host and path, fails. For the IPv6 host \<open>::1\<close>
  \<open>net.JoinHostPort\<close> brackets the host, and the URL is
  \<open>https://[::1]:443/validate-pods\<close>; for the path \<open>validate pods\<close> the URL gets a
  slash before the path and the space escaped.
\<close>

theorem getClientConfigWithPath_URL_counterexample:
  "getClientConfigWithPath (zero_options\<lparr>host := Some ''::1'', port := 443\<rparr>)
     ''/validate-pods'' =
   (Some \<lparr>URL = Some ''https://[::1]:443/validate-pods'', Service = None, CABundle = []\<rparr>,
    None) \<and>
   ''https://[::1]:443/validate-pods'' \<noteq>
     ''https://'' @ ''::1'' @ '':'' @ Itoa 443 @ ''/validate-pods'' \<and>
   getClientConfigWithPath (zero_options\<lparr>host := Some ''localhost'', port := 443\<rparr>)
     ''validate pods'' =
   (Some \<lparr>URL = Some ''https://localhost:443/validate%20pods'', Service = None, CABundle = []\<rparr>,
    None) \<and>
   ''https://localhost:443/validate%20pods'' \<noteq>
     ''https://'' @ ''localhost'' @ '':'' @ Itoa 443 @ ''validate pods''"
  by code_simp

end
